theory Spec2Isabelle
  imports Complex_Main "HOL-Library.Log_Nat"
begin

section \<open>JavaScript values used by \<open>getRecommendations\<close>\<close>

text \<open>
  The recommendation logic of \<open>src/weldingKnowledge.js\<close> (lines 367--496) is a method of
  an object literal. It reads properties with computed keys, splits a table string, parses
  two integers, does double-precision arithmetic on them and formats the result. Each of
  these JavaScript operations is modelled below; a \<open>TypeError\<close> thrown by the engine is
  the left summand of the result type.

  Strings are lists of 8-bit characters: every string of the source is ASCII except for the
  degree sign U+00B0, one UTF-16 code unit in JavaScript and the single character
  \<open>CHR 0xB0\<close> here.
\<close>

datatype error = TypeError

subsection \<open>Numbers\<close>

text \<open>
  A JavaScript number is an IEEE 754 double. A finite double is represented by the rational
  it denotes, \<open>NaN\<close> by a constructor of its own. \<open>fl\<close> rounds a rational to the nearest
  number with a 53-bit significand, ties to even. The exponent is not bounded: the amperage
  values are integers below 1000, far from overflow and from the subnormal range, so
  infinities and signed zeros are left out.
\<close>

datatype number = NaN | Fin rat

definition pow2 :: "int \<Rightarrow> rat" where
  "pow2 e = (if 0 \<le> e then 2 ^ nat e else 1 / 2 ^ nat (- e))"

definition ilog2 :: "rat \<Rightarrow> int" where
  \<comment> \<open>\<open>\<lfloor>log\<^sub>2 x\<rfloor>\<close> for \<open>0 < x\<close>, from the bit lengths of numerator and denominator\<close>
  "ilog2 x = (case quotient_of x of (p, q) \<Rightarrow>
     let k = bitlen p - bitlen q in if pow2 k \<le> x then k else k - 1)"

definition round_even :: "rat \<Rightarrow> int" where
  "round_even m = (let f = \<lfloor>m\<rfloor>; r = m - of_int f in
     if r < 1 / 2 then f else if 1 / 2 < r then f + 1 else if even f then f else f + 1)"

definition fl :: "rat \<Rightarrow> rat" where
  "fl x = (if x = 0 then 0 else
     let e = ilog2 \<bar>x\<bar> - 52 in sgn x * of_int (round_even (\<bar>x\<bar> / pow2 e)) * pow2 e)"

fun num_add :: "number \<Rightarrow> number \<Rightarrow> number" where
  "num_add (Fin a) (Fin b) = Fin (fl (a + b))"
| "num_add _ _ = NaN"

fun num_sub :: "number \<Rightarrow> number \<Rightarrow> number" where
  "num_sub (Fin a) (Fin b) = Fin (fl (a - b))"
| "num_sub _ _ = NaN"

fun num_mul :: "number \<Rightarrow> number \<Rightarrow> number" where
  "num_mul (Fin a) (Fin b) = Fin (fl (a * b))"
| "num_mul _ _ = NaN"

text \<open>\<open>Math.round\<close>: the nearest integer, a tie going up.\<close>

fun Math_round :: "number \<Rightarrow> number" where
  "Math_round (Fin x) = Fin (of_int \<lfloor>x + 1 / 2\<rfloor>)"
| "Math_round NaN = NaN"

fun dec :: "nat \<Rightarrow> string" where
  "dec n = (if n < 10 then [''0123456789'' ! n]
            else dec (n div 10) @ [''0123456789'' ! (n mod 10)])"

text \<open>
  The string a template literal substitutes for a number. The engine only substitutes
  results of \<open>Math.round\<close>, which are integers or \<open>NaN\<close>; an integer below \<open>10\<^sup>2\<^sup>1\<close> is
  printed in decimal digits.
\<close>

fun number_to_string :: "number \<Rightarrow> string" where
  "number_to_string NaN = ''NaN''"
| "number_to_string (Fin x) = (if x < 0 then ''-'' else []) @ dec (nat \<lfloor>\<bar>x\<bar>\<rfloor>)"

subsection \<open>\<open>String.prototype.split\<close> and \<open>parseInt\<close>\<close>

fun split :: "char \<Rightarrow> string \<Rightarrow> string list" where
  "split sep [] = [[]]"
| "split sep (c # cs) =
     (if c = sep then [] # split sep cs
      else (case split sep cs of [] \<Rightarrow> [[c]] | p # ps \<Rightarrow> (c # p) # ps))"

definition is_space :: "char \<Rightarrow> bool" where
  "is_space c = (c \<in> set [CHR 0x09, CHR 0x0A, CHR 0x0B, CHR 0x0C, CHR 0x0D, CHR 0x20, CHR 0xA0])"

definition digit_value :: "char \<Rightarrow> nat" where
  "digit_value c = (let n = (of_char c :: nat) in
     if 48 \<le> n \<and> n \<le> 57 then n - 48
     else if 97 \<le> n \<and> n \<le> 122 then n - 87
     else if 65 \<le> n \<and> n \<le> 90 then n - 55
     else 36)"

text \<open>
  \<open>parseInt\<close> with one argument: leading white space and a sign are skipped, a prefix
  \<open>0x\<close> selects radix 16, the longest run of digits is read, and anything after it (the
  \<open>A\<close> of \<open>80A\<close>) is ignored. No digit at all gives \<open>NaN\<close>.
\<close>

definition parseInt :: "string \<Rightarrow> number" where
  "parseInt s =
     (let t = dropWhile is_space s;
          neg = (take 1 t = ''-'');
          t = (if take 1 t = ''-'' \<or> take 1 t = ''+'' then drop 1 t else t);
          hex = (take 2 t = ''0x'' \<or> take 2 t = ''0X'');
          radix = (if hex then 16 else 10);
          t = (if hex then drop 2 t else t);
          ds = takeWhile (\<lambda>c. digit_value c < radix) t;
          n = foldl (\<lambda>a c. a * radix + digit_value c) 0 ds
      in if ds = [] then NaN
         else Fin (fl (if neg then - of_nat n else of_nat n)))"

text \<open>
  Array destructuring \<open>let [min, max] = xs\<close> binds a missing element to \<open>undefined\<close>.
  The engine uses \<open>min\<close> and \<open>max\<close> only in arithmetic and in \<open>Math.round\<close>, where
  \<open>undefined\<close> converts to \<open>NaN\<close>. Below they are written \<open>mn\<close> and \<open>mx\<close>, the
  names \<open>min\<close> and \<open>max\<close> being constants of HOL.
\<close>

definition element :: "number list \<Rightarrow> nat \<Rightarrow> number" where
  "element xs i = (if i < length xs then xs ! i else NaN)"

subsection \<open>Property lookup on an object literal\<close>

text \<open>
  \<open>obj[key]\<close> on an object literal finds the object's own property, or else a property
  inherited from \<open>Object.prototype\<close>, or else \<open>undefined\<close>. The inherited values are
  functions (and \<open>Object.prototype\<close> itself under \<open>__proto__\<close>): they are truthy and have
  neither an \<open>amperage\<close> property nor a \<open>split\<close> method.
\<close>

definition object_prototype_keys :: "string list" where
  "object_prototype_keys =
     [''constructor'', ''hasOwnProperty'', ''isPrototypeOf'', ''propertyIsEnumerable'',
      ''toLocaleString'', ''toString'', ''valueOf'', ''__proto__'',
      ''__defineGetter__'', ''__defineSetter__'', ''__lookupGetter__'', ''__lookupSetter__'']"

datatype 'a property = Own 'a | Inherited | Undefined

definition get_property :: "(string \<times> 'a) list \<Rightarrow> string \<Rightarrow> 'a property" where
  "get_property obj key =
     (case map_of obj key of
        Some v \<Rightarrow> Own v
      | None \<Rightarrow> if key \<in> set object_prototype_keys then Inherited else Undefined)"

section \<open>The knowledge base\<close>

text \<open>
  Of the tables of \<open>weldingKnowledge\<close>, the engine dereferences \<open>electrodeSize\<close> only
  (lines 71--108). The lookups in \<open>electrodes\<close>, \<open>positions\<close>, \<open>metalThickness\<close> and
  \<open>jointTypes\<close> (lines 393--397) bind variables that are never read.
\<close>

record sizeData =
  size_amperage :: "(string \<times> string) list"
  size_control :: string
  size_deposition :: string
  size_bestFor :: string

definition weldingKnowledge_electrodeSize :: "(string \<times> sizeData) list" where
  \<open>weldingKnowledge_electrodeSize =
     [(''3/32"'',
       \<lparr>size_amperage =
          [(''E6010'', ''40-80A''), (''E6011'', ''40-80A''), (''E6013'', ''40-80A''),
           (''E7018'', ''65-110A''), (''E7024'', ''100-145A'')],
        size_control = ''Excellent'', size_deposition = ''Low'',
        size_bestFor = ''Thin metal, out-of-position, root passes''\<rparr>),
      (''1/8"'',
       \<lparr>size_amperage =
          [(''E6010'', ''75-130A''), (''E6011'', ''75-130A''), (''E6013'', ''70-110A''),
           (''E7018'', ''100-150A''), (''E7024'', ''140-190A'')],
        size_control = ''Good'', size_deposition = ''Medium'',
        size_bestFor = ''General purpose, most common size''\<rparr>),
      (''5/32"'',
       \<lparr>size_amperage =
          [(''E6010'', ''110-170A''), (''E6011'', ''100-160A''), (''E6013'', ''110-160A''),
           (''E7018'', ''140-215A''), (''E7024'', ''180-250A'')],
        size_control = ''Fair'', size_deposition = ''High'',
        size_bestFor = ''Thicker metal, flat position, filling passes''\<rparr>)]\<close>

section \<open>The recommendation engine\<close>

text \<open>
  The input object. The six parameters are strings; an observation field that is absent
  (\<open>None\<close>) takes its default in the destructuring of lines 369--380.
\<close>

record inputs =
  electrode :: string
  electrodeSize :: string
  position :: string
  metalThickness :: string
  jointType :: string
  machineType :: string
  observedPuddle :: "string option"
  observedSpread :: "string option"
  observedTieIn :: "string option"
  observedStability :: "string option"

record recommendations =
  amperage :: string
  arcGap :: string
  rodAngle :: string
  travelSpeed :: string
  motionPattern :: "string list"
  adjustments :: "string list"

definition default :: "string \<Rightarrow> string option \<Rightarrow> string" where
  "default d v = (case v of None \<Rightarrow> d | Some s \<Rightarrow> s)"

subsection \<open>Amperage (lines 399--418)\<close>

definition parse_range :: "string \<Rightarrow> number \<times> number" where
  "parse_range s = (let xs = map parseInt (split (CHR ''-'') s) in (element xs 0, element xs 1))"

definition adjust_thickness :: "string \<Rightarrow> number \<times> number \<Rightarrow> number \<times> number" where
  \<open>adjust_thickness thickness mm = (case mm of (mn, mx) \<Rightarrow>
     if thickness = ''Thin (<1/8")'' then
       (mn, num_add mn (num_mul (num_sub mx mn) (Fin (fl (4 / 10)))))
     else if thickness = ''Thick (>3/16")'' then
       (num_add mn (num_mul (num_sub mx mn) (Fin (fl (6 / 10)))), mx)
     else (mn, mx))\<close>

definition adjust_position :: "string \<Rightarrow> number \<times> number \<Rightarrow> number \<times> number" where
  "adjust_position pos mm = (case mm of (mn, mx) \<Rightarrow>
     if pos = ''Vertical Up'' then (mn, num_sub mx (Fin 5))
     else if pos = ''Overhead'' then (mn, num_sub mx (Fin 3))
     else (mn, mx))"

definition amperage_range :: "string \<Rightarrow> string \<Rightarrow> string \<Rightarrow> number \<times> number" where
  \<comment> \<open>the two numbers substituted into the template literal of line 417\<close>
  "amperage_range s thickness pos =
     (case adjust_position pos (adjust_thickness thickness (parse_range s)) of
        (mn, mx) \<Rightarrow> (Math_round mn, Math_round mx))"

definition format_range :: "number \<times> number \<Rightarrow> string" where
  "format_range mm = (case mm of (mn, mx) \<Rightarrow>
     number_to_string mn @ ''-'' @ number_to_string mx @ ''A'')"

text \<open>
  The guard \<open>sizeData && sizeData.amperage[electrode]\<close> of line 400 and the second read
  of the same property in line 401. An unknown size or electrode makes the guard falsy
  (\<open>Inr None\<close>). A size key inherited from \<open>Object.prototype\<close> gives a truthy value
  with no \<open>amperage\<close>, and indexing \<open>undefined\<close> throws; an inherited electrode key
  passes the guard with a value that has no \<open>split\<close> method, and calling it throws.
\<close>

definition lookup_amperage :: "string \<Rightarrow> string \<Rightarrow> error + string option" where
  "lookup_amperage sz el =
     (case get_property weldingKnowledge_electrodeSize sz of
        Undefined \<Rightarrow> Inr None
      | Inherited \<Rightarrow> Inl TypeError
      | Own sd \<Rightarrow>
          (case get_property (size_amperage sd) el of
             Undefined \<Rightarrow> Inr None
           | Inherited \<Rightarrow> Inl TypeError
           | Own s \<Rightarrow> if s = [] then Inr None else Inr (Some s)))"

definition amperage_step :: "inputs \<Rightarrow> recommendations \<Rightarrow> error + recommendations" where
  "amperage_step inp r =
     (case lookup_amperage (electrodeSize inp) (electrode inp) of
        Inl e \<Rightarrow> Inl e
      | Inr None \<Rightarrow> Inr r
      | Inr (Some s) \<Rightarrow>
          Inr (r\<lparr>amperage :=
                 format_range (amperage_range s (metalThickness inp) (position inp))\<rparr>))"

subsection \<open>Rod angle (lines 420--429)\<close>

definition rodAngle_step :: "inputs \<Rightarrow> recommendations \<Rightarrow> recommendations" where
  "rodAngle_step inp r =
     (if jointType inp = ''Butt'' then
        r\<lparr>rodAngle :=
            (if position inp = ''Flat'' then ''Perpendicular''
             else if position inp = ''Vertical Up'' then ''45'' @ [CHR 0xB0] @ '' angled up slightly''
             else if position inp = ''Overhead'' then ''Nearly perpendicular''
             else ''45'' @ [CHR 0xB0])\<rparr>
      else if jointType inp = ''Lap'' \<or> jointType inp = ''T'' then
        r\<lparr>rodAngle := ''45'' @ [CHR 0xB0] @ '' into corner''\<rparr>
      else if jointType inp = ''Corner'' then
        r\<lparr>rodAngle := ''Bisect the corner angle''\<rparr>
      else r)"

subsection \<open>Position-specific adjustments (lines 431--446)\<close>

definition position_step :: "inputs \<Rightarrow> recommendations \<Rightarrow> recommendations" where
  "position_step inp r =
     (if position inp = ''Vertical Down'' then
        r\<lparr>travelSpeed := ''Fast'', rodAngle := ''Angle up slightly to hold puddle''\<rparr>
      else if position inp = ''Vertical Up'' then
        (let r = r\<lparr>travelSpeed := ''Medium-slow, steady''\<rparr> in
         if electrode inp = ''E7018'' then
           r\<lparr>motionPattern := motionPattern r @ [''Side-to-side'']\<rparr>
         else if electrode inp = ''E6010'' \<or> electrode inp = ''E6011'' then
           r\<lparr>motionPattern := (motionPattern r @ [''Step/Whip'']) @ [''Circular'']\<rparr>
         else r)
      else if position inp = ''Horizontal'' then
        r\<lparr>rodAngle := ''Angle up slightly to control puddle'',
          travelSpeed := ''Medium-fast to prevent sagging''\<rparr>
      else r)"

subsection \<open>Electrode-specific recommendations (lines 448--468)\<close>

definition electrode_step :: "inputs \<Rightarrow> recommendations \<Rightarrow> recommendations" where
  "electrode_step inp r =
     (if electrode inp = ''E6010'' \<or> electrode inp = ''E6011'' then
        (let r = r\<lparr>arcGap := ''Medium''\<rparr> in
         if motionPattern r = [] then
           r\<lparr>motionPattern := motionPattern r @ [''Circular'', ''Zigzag'', ''Whip/Step'']\<rparr>
         else r)
      else if electrode inp = ''E6013'' then
        (let r = r\<lparr>arcGap := ''Short to medium''\<rparr> in
         if motionPattern r = [] then
           r\<lparr>motionPattern := motionPattern r @ [''Straight'', ''Slight side-to-side'']\<rparr>
         else r)
      else if electrode inp = ''E7018'' then
        (let r = r\<lparr>arcGap := ''Short'',
                   adjustments := adjustments r @ [''Keep arc in puddle, don't let slag get ahead'']\<rparr> in
         if motionPattern r = [] then
           r\<lparr>motionPattern := motionPattern r @ [''Straight'', ''Side-to-side'']\<rparr>
         else r)
      else if electrode inp = ''E7024'' then
        r\<lparr>arcGap := ''Short'', motionPattern := motionPattern r @ [''Straight'']\<rparr>
      else r)"

subsection \<open>Observed puddle behaviour (lines 470--493)\<close>

definition push :: "string \<Rightarrow> recommendations \<Rightarrow> recommendations" where
  "push msg r = r\<lparr>adjustments := adjustments r @ [msg]\<rparr>"

definition observation_step :: "inputs \<Rightarrow> recommendations \<Rightarrow> recommendations" where
  "observation_step inp r =
     (let puddle = default ''Moderate'' (observedPuddle inp);
          spread = default ''Moderate'' (observedSpread inp);
          tieIn = default ''Adequate'' (observedTieIn inp);
          stability = default ''Stable'' (observedStability inp);
          r = (if puddle = ''Stiff'' then
                 push ''Increase heat: try higher amperage or slower travel'' r
               else if puddle = ''VeryFluid'' then
                 push ''Reduce heat: try lower amperage or faster travel'' r
               else r);
          r = (if spread = ''Narrow'' then
                 push ''Widen puddle: slow down slightly or increase amperage'' r
               else if spread = ''Wide'' then
                 push ''Narrow puddle: speed up slightly or decrease amperage'' r
               else r);
          r = (if tieIn = ''Poor'' then
                 push ''Improve edge tie-in: direct more heat to edges, adjust angle'' r
               else r)
      in if stability = ''Unstable'' then
           (if electrode inp = ''E6010'' \<and> machineType inp = ''AC'' then
              push ''E6010 requires DC+, switch to E6011 for AC'' r
            else push ''Maintain consistent arc length, check machine settings'' r)
         else r)"

subsection \<open>\<open>getRecommendations\<close> (lines 367--496)\<close>

definition initial :: recommendations where
  "initial = \<lparr>amperage = [], arcGap = [], rodAngle = [], travelSpeed = [],
              motionPattern = [], adjustments = []\<rparr>"

definition getRecommendations :: "inputs \<Rightarrow> error + recommendations" where
  "getRecommendations inp =
     (case amperage_step inp initial of
        Inl e \<Rightarrow> Inl e
      | Inr r \<Rightarrow>
          Inr (observation_step inp (electrode_step inp (position_step inp (rodAngle_step inp r)))))"

text \<open>The parameter object the visualisation starts from (lines 515--526).\<close>

definition params :: inputs where
  \<open>params = \<lparr>electrode = ''E6010'', electrodeSize = ''1/8"'', position = ''Flat'',
     metalThickness = ''Medium (1/8"-3/16")'', jointType = ''Butt'', machineType = ''DC+'',
     observedPuddle = Some ''Moderate'', observedSpread = Some ''Moderate'',
     observedTieIn = Some ''Adequate'', observedStability = Some ''Stable''\<rparr>\<close>

subsection \<open>Auxiliary notions for the proofs\<close>

text \<open>
  The amperage strings of the table, and the three ways the engine can treat a thickness
  or a position: the two it names, and any other value (represented by the empty string).
\<close>

definition table_ranges :: "string list" where
  "table_ranges =
     remdups (concat (map (\<lambda>(k, sd). map snd (size_amperage sd)) weldingKnowledge_electrodeSize))"

definition thickness_class :: "string \<Rightarrow> string" where
  \<open>thickness_class th =
     (if th = ''Thin (<1/8")'' then th else if th = ''Thick (>3/16")'' then th else [])\<close>

definition position_class :: "string \<Rightarrow> string" where
  "position_class p = (if p = ''Vertical Up'' then p else if p = ''Overhead'' then p else [])"

section \<open>Properties of the steps\<close>

subsection \<open>Which fields a step writes\<close>

lemma initial_fields:
  "amperage initial = []" "arcGap initial = []" "rodAngle initial = []"
  "travelSpeed initial = []" "motionPattern initial = []" "adjustments initial = []"
  by (simp_all add: initial_def)

lemma amperage_step_fields:
  assumes "amperage_step inp r0 = Inr r"
  shows "arcGap r = arcGap r0" "rodAngle r = rodAngle r0" "travelSpeed r = travelSpeed r0"
    "motionPattern r = motionPattern r0" "adjustments r = adjustments r0"
  using assms by (auto simp: amperage_step_def split: sum.splits option.splits)

lemma rodAngle_step_fields:
  "amperage (rodAngle_step inp r) = amperage r"
  "arcGap (rodAngle_step inp r) = arcGap r"
  "travelSpeed (rodAngle_step inp r) = travelSpeed r"
  "motionPattern (rodAngle_step inp r) = motionPattern r"
  "adjustments (rodAngle_step inp r) = adjustments r"
  by (simp_all add: rodAngle_step_def)

lemma position_step_fields:
  "amperage (position_step inp r) = amperage r"
  "arcGap (position_step inp r) = arcGap r"
  "adjustments (position_step inp r) = adjustments r"
  by (simp_all add: position_step_def Let_def)

lemma electrode_step_fields:
  "amperage (electrode_step inp r) = amperage r"
  "rodAngle (electrode_step inp r) = rodAngle r"
  "travelSpeed (electrode_step inp r) = travelSpeed r"
  by (simp_all add: electrode_step_def Let_def)

lemma observation_step_fields:
  "amperage (observation_step inp r) = amperage r"
  "arcGap (observation_step inp r) = arcGap r"
  "rodAngle (observation_step inp r) = rodAngle r"
  "travelSpeed (observation_step inp r) = travelSpeed r"
  "motionPattern (observation_step inp r) = motionPattern r"
  by (simp_all add: observation_step_def push_def Let_def)

text \<open>What the last two blocks append to the adjustments.\<close>

lemma electrode_step_adjustments:
  "adjustments (electrode_step inp r) =
     adjustments r @
     (if electrode inp = ''E7018'' then [''Keep arc in puddle, don't let slag get ahead''] else [])"
  by (simp add: electrode_step_def Let_def)

lemma observation_step_adjustments:
  "adjustments (observation_step inp r) =
     adjustments r @
     (if default ''Moderate'' (observedPuddle inp) = ''Stiff''
        then [''Increase heat: try higher amperage or slower travel'']
      else if default ''Moderate'' (observedPuddle inp) = ''VeryFluid''
        then [''Reduce heat: try lower amperage or faster travel'']
      else []) @
     (if default ''Moderate'' (observedSpread inp) = ''Narrow''
        then [''Widen puddle: slow down slightly or increase amperage'']
      else if default ''Moderate'' (observedSpread inp) = ''Wide''
        then [''Narrow puddle: speed up slightly or decrease amperage'']
      else []) @
     (if default ''Adequate'' (observedTieIn inp) = ''Poor''
        then [''Improve edge tie-in: direct more heat to edges, adjust angle'']
      else []) @
     (if default ''Stable'' (observedStability inp) = ''Unstable''
        then [if electrode inp = ''E6010'' \<and> machineType inp = ''AC''
              then ''E6010 requires DC+, switch to E6011 for AC''
              else ''Maintain consistent arc length, check machine settings'']
      else [])"
  by (simp add: observation_step_def push_def Let_def)

lemma getRecommendations_Inr:
  assumes "getRecommendations inp = Inr r"
  obtains r0 where "amperage_step inp initial = Inr r0"
    and "r = observation_step inp (electrode_step inp (position_step inp (rodAngle_step inp r0)))"
  using assms by (auto simp: getRecommendations_def split: sum.splits)

subsection \<open>When the engine throws\<close>

lemma get_property_OwnD: "get_property obj k = Own v \<Longrightarrow> (k, v) \<in> set obj"
  by (auto simp: get_property_def split: option.splits if_splits dest: map_of_SomeD)

lemma get_property_not_Inherited:
  "k \<notin> set object_prototype_keys \<Longrightarrow> get_property obj k \<noteq> Inherited"
  by (simp add: get_property_def split: option.splits)

lemma lookup_amperage_returns:
  assumes "sz \<notin> set object_prototype_keys" and "el \<notin> set object_prototype_keys"
  shows "\<exists>v. lookup_amperage sz el = Inr v"
  by (simp add: lookup_amperage_def get_property_not_Inherited[OF assms(1)]
      get_property_not_Inherited[OF assms(2)] split: property.splits)

lemma getRecommendations_returns:
  assumes "electrodeSize inp \<notin> set object_prototype_keys"
    and "electrode inp \<notin> set object_prototype_keys"
  shows "\<exists>r. getRecommendations inp = Inr r"
proof -
  from lookup_amperage_returns[OF assms] obtain v
    where "lookup_amperage (electrodeSize inp) (electrode inp) = Inr v" ..
  then show ?thesis
    by (cases v) (simp_all add: getRecommendations_def amperage_step_def)
qed

subsection \<open>Double-precision arithmetic on the table's values\<close>

lemma round_even_of_int: "round_even (of_int m) = m"
  by (simp add: round_even_def)

lemma ilog2_of_int:
  assumes "0 < n"
  shows "ilog2 (of_int n) = bitlen n - 1"
proof -
  have b: "1 \<le> bitlen n"
    using assms by (simp add: bitlen_def floorlog_def)
  have "(2::int) ^ nat (bitlen n - 1) \<le> n"
    using bitlen_bounds[OF assms] by simp
  then have "(of_int ((2::int) ^ nat (bitlen n - 1)) :: rat) \<le> of_int n"
    by (simp only: of_int_le_iff)
  then have "pow2 (bitlen n - 1) \<le> of_int n"
    using b by (simp add: pow2_def)
  moreover have "bitlen 1 = 1"
    by code_simp
  ultimately show ?thesis
    by (simp add: ilog2_def quotient_of_int Let_def)
qed

text \<open>An integer below \<open>2\<^sup>5\<^sup>3\<close> is a double: rounding leaves it alone.\<close>

lemma fl_of_int_pos:
  assumes "0 < m" and "m < 2 ^ 53"
  shows "fl (of_int m) = of_int m"
proof -
  have b2: "bitlen m \<le> 53"
    using assms bitlen_le_iff_power[of m 53] by simp
  define j where "j = nat (53 - bitlen m)"
  have a: "\<bar>of_int m :: rat\<bar> = of_int m" "sgn (of_int m :: rat) = 1" "(of_int m :: rat) \<noteq> 0"
    using assms(1) by simp_all
  have e: "ilog2 (of_int m) - 52 = - int j"
    using assms(1) b2 by (simp add: ilog2_of_int j_def)
  have p: "pow2 (- int j) = 1 / 2 ^ j"
    by (cases "j = 0") (simp_all add: pow2_def)
  have q: "(of_int m :: rat) / pow2 (- int j) = of_int (m * 2 ^ j)"
    by (simp add: p)
  have "fl (of_int m) = of_int (round_even (of_int m / pow2 (- int j))) * pow2 (- int j)"
    using a(3) unfolding fl_def Let_def a(1,2) e by simp
  also have "\<dots> = of_int (m * 2 ^ j) * (1 / 2 ^ j)"
    by (simp only: q round_even_of_int) (simp only: p)
  also have "\<dots> = of_int m"
    by simp
  finally show ?thesis .
qed

lemma fl_numeral [simp]: "numeral k < (2::int) ^ 53 \<Longrightarrow> fl (numeral k) = numeral k"
  using fl_of_int_pos[of "numeral k"] by simp

lemma Math_round_numeral [simp]: "Math_round (Fin (numeral k)) = Fin (numeral k)"
proof -
  have "\<lfloor>(of_int (numeral k) :: rat) + 1 / 2\<rfloor> = numeral k"
    by linarith
  then show ?thesis by simp
qed

text \<open>
  The products of the thickness step. The differences \<open>max - min\<close> of the table are
  40, 45, 50, 55, 60, 70 and 75; on them the rounded product with the double nearest to 0.4
  (or 0.6) is the exact product with 0.4 (or 0.6).
\<close>

lemma thin_products:
  "\<forall>d \<in> set [40, 45, 50, 55, 60, 70, 75]. fl (of_int d * fl (4 / 10)) = of_int d * 4 / 10"
  by code_simp

lemma thick_products:
  "\<forall>d \<in> set [40, 45, 50, 55, 60, 70, 75]. fl (of_int d * fl (6 / 10)) = of_int d * 6 / 10"
  by code_simp

subsection \<open>The amperage table\<close>

lemma table_ranges_eq:
  "table_ranges =
     [''40-80A'', ''65-110A'', ''100-145A'', ''75-130A'', ''70-110A'', ''100-150A'',
      ''140-190A'', ''110-170A'', ''100-160A'', ''110-160A'', ''140-215A'', ''180-250A'']"
  by code_simp

lemma parse_table:
  "map parse_range
     [''40-80A'', ''65-110A'', ''100-145A'', ''75-130A'', ''70-110A'', ''100-150A'',
      ''140-190A'', ''110-170A'', ''100-160A'', ''110-160A'', ''140-215A'', ''180-250A'']
   = [(Fin 40, Fin 80), (Fin 65, Fin 110), (Fin 100, Fin 145), (Fin 75, Fin 130),
      (Fin 70, Fin 110), (Fin 100, Fin 150), (Fin 140, Fin 190), (Fin 110, Fin 170),
      (Fin 100, Fin 160), (Fin 110, Fin 160), (Fin 140, Fin 215), (Fin 180, Fin 250)]"
  by code_simp

lemma table_lookup:
  assumes "lookup_amperage sz el = Inr (Some s)"
  shows "s \<in> set table_ranges" and "s \<noteq> []"
proof -
  from assms obtain sd where sd: "get_property weldingKnowledge_electrodeSize sz = Own sd"
    and s: "get_property (size_amperage sd) el = Own s" and "s \<noteq> []"
    by (auto simp: lookup_amperage_def split: property.splits if_splits)
  then show "s \<noteq> []" by simp
  show "s \<in> set table_ranges"
    using get_property_OwnD[OF sd] get_property_OwnD[OF s]
    unfolding table_ranges_def by force
qed

lemma thickness_class_cases:
  \<open>thickness_class th \<in> set [''Thin (<1/8")'', ''Thick (>3/16")'', []]\<close>
  by (simp add: thickness_class_def)

lemma position_class_cases:
  "position_class p \<in> set [''Vertical Up'', ''Overhead'', []]"
  by (simp add: position_class_def)

lemma adjust_thickness_class: "adjust_thickness th mm = adjust_thickness (thickness_class th) mm"
  by (simp add: adjust_thickness_def thickness_class_def)

lemma adjust_position_class: "adjust_position p mm = adjust_position (position_class p) mm"
  by (simp add: adjust_position_def position_class_def)

lemma amperage_range_class:
  "amperage_range s th p = amperage_range s (thickness_class th) (position_class p)"
  unfolding amperage_range_def
  by (subst adjust_thickness_class, subst adjust_position_class) (rule refl)



lemma order_core:
  \<open>\<forall>s \<in> set table_ranges. \<forall>th \<in> set [''Thin (<1/8")'', ''Thick (>3/16")'', []].
     \<forall>p \<in> set [''Vertical Up'', ''Overhead'', []].
     (case amperage_range s th p of (Fin lo, Fin hi) \<Rightarrow> lo \<le> hi | _ \<Rightarrow> False)\<close>
  using parse_table thin_products thick_products
  by (simp add: table_ranges_eq adjust_thickness_def adjust_position_def amperage_range_def
      del: Math_round.simps)

section \<open>The claims\<close>

text \<open>
  C1. For electrode E6010, size 1/8", position Flat, medium thickness, a butt joint, machine
  DC+ and the four observation fields left to their defaults, \<open>getRecommendations\<close>
  returns amperage "75-130A", rod angle "Perpendicular", arc gap "Medium", the motion
  patterns Circular, Zigzag, Whip/Step in this order, and no adjustment. (The travel speed
  stays the empty string.)
\<close>

theorem default_scenario:
  \<open>getRecommendations
     \<lparr>electrode = ''E6010'', electrodeSize = ''1/8"'', position = ''Flat'',
      metalThickness = ''Medium (1/8"-3/16")'', jointType = ''Butt'', machineType = ''DC+'',
      observedPuddle = None, observedSpread = None,
      observedTieIn = None, observedStability = None\<rparr>
   = Inr \<lparr>amperage = ''75-130A'', arcGap = ''Medium'', rodAngle = ''Perpendicular'',
          travelSpeed = [], motionPattern = [''Circular'', ''Zigzag'', ''Whip/Step''],
          adjustments = []\<rparr>\<close>
  by code_simp

text \<open>
  C2, as the code has it. For a lap or a T joint the returned rod angle is
  "45\<degree> into corner" in every position other than Vertical Down and Horizontal; in these
  two positions the position-specific block overwrites it.
\<close>

theorem lap_tee_rodAngle:
  assumes "jointType inp = ''Lap'' \<or> jointType inp = ''T''"
    and "position inp \<noteq> ''Vertical Down''" and "position inp \<noteq> ''Horizontal''"
    and "getRecommendations inp = Inr r"
  shows "rodAngle r = ''45'' @ [CHR 0xB0] @ '' into corner''"
proof -
  from assms(4) obtain r0 where
    r: "r = observation_step inp (electrode_step inp (position_step inp (rodAngle_step inp r0)))"
    by (rule getRecommendations_Inr)
  have "rodAngle (rodAngle_step inp r0) = ''45'' @ [CHR 0xB0] @ '' into corner''"
    using assms(1) by (auto simp: rodAngle_step_def)
  moreover have "rodAngle (position_step inp r') = rodAngle r'" for r'
    using assms(2,3) by (simp add: position_step_def Let_def)
  ultimately show ?thesis
    by (simp add: r observation_step_fields electrode_step_fields)
qed

theorem lap_tee_rodAngle_witness:
  "(jointType (params\<lparr>jointType := ''Lap'', position := ''Overhead''\<rparr>) = ''Lap'' \<or>
    jointType (params\<lparr>jointType := ''Lap'', position := ''Overhead''\<rparr>) = ''T'') \<and>
   position (params\<lparr>jointType := ''Lap'', position := ''Overhead''\<rparr>) \<noteq> ''Vertical Down'' \<and>
   position (params\<lparr>jointType := ''Lap'', position := ''Overhead''\<rparr>) \<noteq> ''Horizontal'' \<and>
   getRecommendations (params\<lparr>jointType := ''Lap'', position := ''Overhead''\<rparr>)
   = Inr \<lparr>amperage = ''75-127A'', arcGap = ''Medium'',
        rodAngle = ''45'' @ [CHR 0xB0] @ '' into corner'', travelSpeed = [],
        motionPattern = [''Circular'', ''Zigzag'', ''Whip/Step''], adjustments = []\<rparr> \<and>
   rodAngle \<lparr>amperage = ''75-127A'', arcGap = ''Medium'',
      rodAngle = ''45'' @ [CHR 0xB0] @ '' into corner'', travelSpeed = [],
      motionPattern = [''Circular'', ''Zigzag'', ''Whip/Step''], adjustments = []\<rparr>
   = ''45'' @ [CHR 0xB0] @ '' into corner''"
proof -
  have h: "getRecommendations (params\<lparr>jointType := ''Lap'', position := ''Overhead''\<rparr>)
    = Inr \<lparr>amperage = ''75-127A'', arcGap = ''Medium'',
        rodAngle = ''45'' @ [CHR 0xB0] @ '' into corner'', travelSpeed = [],
        motionPattern = [''Circular'', ''Zigzag'', ''Whip/Step''], adjustments = []\<rparr>"
    by code_simp
  show ?thesis
    using h lap_tee_rodAngle[OF _ _ _ h] by simp
qed

text \<open>
  C2, as stated, fails: with a lap joint welded Vertical Down the engine returns the rod
  angle "Angle up slightly to hold puddle".
\<close>

theorem lap_vertical_down_rodAngle:
  "getRecommendations (params\<lparr>jointType := ''Lap'', position := ''Vertical Down''\<rparr>)
   = Inr \<lparr>amperage = ''75-130A'', arcGap = ''Medium'',
        rodAngle = ''Angle up slightly to hold puddle'', travelSpeed = ''Fast'',
        motionPattern = [''Circular'', ''Zigzag'', ''Whip/Step''], adjustments = []\<rparr>
   \<and> ''Angle up slightly to hold puddle'' \<noteq> ''45'' @ [CHR 0xB0] @ '' into corner''"
  by code_simp

text \<open>
  C3. For every electrode and size with an entry in the amperage table, and for every
  thickness and position, the engine returns, and the two numbers it prints into the
  amperage string (after thickness narrowing, position trim and rounding) satisfy
  min \<open>\<le>\<close> max.
\<close>

theorem amperage_min_le_max:
  assumes "lookup_amperage (electrodeSize inp) (electrode inp) = Inr (Some s)"
  shows "\<exists>r. getRecommendations inp = Inr r \<and>
           amperage r = format_range (amperage_range s (metalThickness inp) (position inp)) \<and>
           (case amperage_range s (metalThickness inp) (position inp) of
              (Fin lo, Fin hi) \<Rightarrow> lo \<le> hi | _ \<Rightarrow> False)"
proof -
  have "amperage_step inp initial = Inr (initial\<lparr>amperage :=
      format_range (amperage_range s (metalThickness inp) (position inp))\<rparr>)"
    using assms by (simp add: amperage_step_def)
  then have "\<exists>r. getRecommendations inp = Inr r \<and>
           amperage r = format_range (amperage_range s (metalThickness inp) (position inp))"
    by (simp add: getRecommendations_def observation_step_fields electrode_step_fields
        position_step_fields rodAngle_step_fields)
  moreover have "case amperage_range s (metalThickness inp) (position inp) of
              (Fin lo, Fin hi) \<Rightarrow> lo \<le> hi | _ \<Rightarrow> False"
    using order_core[THEN bspec, OF table_lookup(1)[OF assms],
        THEN bspec, OF thickness_class_cases[of "metalThickness inp"],
        THEN bspec, OF position_class_cases[of "position inp"]]
    unfolding amperage_range_class[of s "metalThickness inp" "position inp"] .
  ultimately show ?thesis by (elim exE conjE) (rule exI, (rule conjI | assumption)+)
qed

theorem amperage_min_le_max_witness:
  \<open>lookup_amperage (electrodeSize params) (electrode params) = Inr (Some ''75-130A'') \<and>
   (\<exists>r. getRecommendations params = Inr r \<and>
      amperage r = format_range (amperage_range ''75-130A'' (metalThickness params) (position params)) \<and>
      (case amperage_range ''75-130A'' (metalThickness params) (position params) of
         (Fin lo, Fin hi) \<Rightarrow> lo \<le> hi | _ \<Rightarrow> False))\<close>
proof -
  have h: "lookup_amperage (electrodeSize params) (electrode params) = Inr (Some ''75-130A'')"
    by code_simp
  show ?thesis
    using h amperage_min_le_max[OF h] by (rule conjI)
qed





text \<open>
  C6. Whenever the engine returns: in position Vertical Down the rod angle is "Angle up
  slightly to hold puddle", in position Horizontal it is "Angle up slightly to control
  puddle", whatever the joint type.
\<close>

theorem position_overrides_rodAngle:
  assumes "getRecommendations inp = Inr r"
  shows "(position inp = ''Vertical Down'' \<longrightarrow> rodAngle r = ''Angle up slightly to hold puddle'') \<and>
         (position inp = ''Horizontal'' \<longrightarrow> rodAngle r = ''Angle up slightly to control puddle'')"
proof -
  from assms obtain r0 where
    r: "r = observation_step inp (electrode_step inp (position_step inp (rodAngle_step inp r0)))"
    by (rule getRecommendations_Inr)
  show ?thesis
    by (simp add: r observation_step_fields electrode_step_fields position_step_def)
qed

theorem position_overrides_rodAngle_witness:
  "position (params\<lparr>position := ''Vertical Down''\<rparr>) = ''Vertical Down'' \<and>
   getRecommendations (params\<lparr>position := ''Vertical Down''\<rparr>)
   = Inr \<lparr>amperage = ''75-130A'', arcGap = ''Medium'',
        rodAngle = ''Angle up slightly to hold puddle'', travelSpeed = ''Fast'',
        motionPattern = [''Circular'', ''Zigzag'', ''Whip/Step''], adjustments = []\<rparr> \<and>
   rodAngle \<lparr>amperage = ''75-130A'', arcGap = ''Medium'',
      rodAngle = ''Angle up slightly to hold puddle'', travelSpeed = ''Fast'',
      motionPattern = [''Circular'', ''Zigzag'', ''Whip/Step''], adjustments = []\<rparr>
   = ''Angle up slightly to hold puddle'' \<and>
   position (params\<lparr>position := ''Horizontal'', jointType := ''T''\<rparr>) = ''Horizontal'' \<and>
   getRecommendations (params\<lparr>position := ''Horizontal'', jointType := ''T''\<rparr>)
   = Inr \<lparr>amperage = ''75-130A'', arcGap = ''Medium'',
        rodAngle = ''Angle up slightly to control puddle'',
        travelSpeed = ''Medium-fast to prevent sagging'',
        motionPattern = [''Circular'', ''Zigzag'', ''Whip/Step''], adjustments = []\<rparr> \<and>
   rodAngle \<lparr>amperage = ''75-130A'', arcGap = ''Medium'',
      rodAngle = ''Angle up slightly to control puddle'',
      travelSpeed = ''Medium-fast to prevent sagging'',
      motionPattern = [''Circular'', ''Zigzag'', ''Whip/Step''], adjustments = []\<rparr>
   = ''Angle up slightly to control puddle''"
proof -
  have h1: "getRecommendations (params\<lparr>position := ''Vertical Down''\<rparr>)
    = Inr \<lparr>amperage = ''75-130A'', arcGap = ''Medium'',
        rodAngle = ''Angle up slightly to hold puddle'', travelSpeed = ''Fast'',
        motionPattern = [''Circular'', ''Zigzag'', ''Whip/Step''], adjustments = []\<rparr>"
    by code_simp
  have h2: "getRecommendations (params\<lparr>position := ''Horizontal'', jointType := ''T''\<rparr>)
    = Inr \<lparr>amperage = ''75-130A'', arcGap = ''Medium'',
        rodAngle = ''Angle up slightly to control puddle'',
        travelSpeed = ''Medium-fast to prevent sagging'',
        motionPattern = [''Circular'', ''Zigzag'', ''Whip/Step''], adjustments = []\<rparr>"
    by code_simp
  show ?thesis
    using h1 h2 position_overrides_rodAngle[OF h1] position_overrides_rodAngle[OF h2] by simp
qed

text \<open>
  C7. Whenever the engine returns for position Vertical Up and electrode E7018, the motion
  pattern is exactly ["Side-to-side"]: the position block seeds this one entry and the
  E7018 branch, finding the list non-empty, adds nothing.
\<close>

theorem vertical_up_E7018_motion:
  assumes "position inp = ''Vertical Up''" and "electrode inp = ''E7018''"
    and "getRecommendations inp = Inr r"
  shows "motionPattern r = [''Side-to-side'']"
proof -
  from assms(3) obtain r0 where r0: "amperage_step inp initial = Inr r0" and
    r: "r = observation_step inp (electrode_step inp (position_step inp (rodAngle_step inp r0)))"
    by (rule getRecommendations_Inr)
  have seed: "motionPattern (position_step inp (rodAngle_step inp r0)) = [''Side-to-side'']"
    using assms(1,2) amperage_step_fields(4)[OF r0]
    by (simp add: position_step_def Let_def rodAngle_step_fields initial_fields)
  show ?thesis
    using assms(2) seed
    by (simp add: r observation_step_fields electrode_step_def Let_def)
qed

theorem vertical_up_E7018_motion_witness:
  "position (params\<lparr>position := ''Vertical Up'', electrode := ''E7018''\<rparr>) = ''Vertical Up'' \<and>
   electrode (params\<lparr>position := ''Vertical Up'', electrode := ''E7018''\<rparr>) = ''E7018'' \<and>
   getRecommendations (params\<lparr>position := ''Vertical Up'', electrode := ''E7018''\<rparr>)
   = Inr \<lparr>amperage = ''100-145A'', arcGap = ''Short'',
        rodAngle = ''45'' @ [CHR 0xB0] @ '' angled up slightly'',
        travelSpeed = ''Medium-slow, steady'', motionPattern = [''Side-to-side''],
        adjustments = [''Keep arc in puddle, don't let slag get ahead'']\<rparr> \<and>
   motionPattern \<lparr>amperage = ''100-145A'', arcGap = ''Short'',
      rodAngle = ''45'' @ [CHR 0xB0] @ '' angled up slightly'',
      travelSpeed = ''Medium-slow, steady'', motionPattern = [''Side-to-side''],
      adjustments = [''Keep arc in puddle, don't let slag get ahead'']\<rparr>
   = [''Side-to-side'']"
proof -
  have h: "getRecommendations (params\<lparr>position := ''Vertical Up'', electrode := ''E7018''\<rparr>)
    = Inr \<lparr>amperage = ''100-145A'', arcGap = ''Short'',
        rodAngle = ''45'' @ [CHR 0xB0] @ '' angled up slightly'',
        travelSpeed = ''Medium-slow, steady'', motionPattern = [''Side-to-side''],
        adjustments = [''Keep arc in puddle, don't let slag get ahead'']\<rparr>"
    by code_simp
  show ?thesis
    using h vertical_up_E7018_motion[OF _ _ h] by simp
qed

text \<open>
  C8. Whenever the engine returns, its adjustments are, in this order: the E7018 message of
  the electrode block if the electrode is E7018; then at most one heat message (Stiff or
  VeryFluid); then at most one spread message (Narrow or Wide); then the tie-in message
  (Poor); then one arc-stability message (Unstable), which is the E6010 message for E6010 on
  an AC machine and the generic one otherwise. This holds for every combination of the four
  observations, present or left to their defaults. In particular, for electrode E6010 on an
  AC machine with a stiff and narrow puddle, poor tie-in and an unstable arc, the
  adjustments are exactly the four messages heat, spread, tie-in, stability, the last being
  "E6010 requires DC+, switch to E6011 for AC".
\<close>

theorem observation_order:
  assumes "getRecommendations inp = Inr r"
  shows "adjustments r =
     (if electrode inp = ''E7018'' then [''Keep arc in puddle, don't let slag get ahead''] else []) @
     (if default ''Moderate'' (observedPuddle inp) = ''Stiff''
        then [''Increase heat: try higher amperage or slower travel'']
      else if default ''Moderate'' (observedPuddle inp) = ''VeryFluid''
        then [''Reduce heat: try lower amperage or faster travel'']
      else []) @
     (if default ''Moderate'' (observedSpread inp) = ''Narrow''
        then [''Widen puddle: slow down slightly or increase amperage'']
      else if default ''Moderate'' (observedSpread inp) = ''Wide''
        then [''Narrow puddle: speed up slightly or decrease amperage'']
      else []) @
     (if default ''Adequate'' (observedTieIn inp) = ''Poor''
        then [''Improve edge tie-in: direct more heat to edges, adjust angle'']
      else []) @
     (if default ''Stable'' (observedStability inp) = ''Unstable''
        then [if electrode inp = ''E6010'' \<and> machineType inp = ''AC''
              then ''E6010 requires DC+, switch to E6011 for AC''
              else ''Maintain consistent arc length, check machine settings'']
      else [])
   \<and> (electrode inp = ''E6010'' \<and> machineType inp = ''AC'' \<and>
        observedPuddle inp = Some ''Stiff'' \<and> observedSpread inp = Some ''Narrow'' \<and>
        observedTieIn inp = Some ''Poor'' \<and> observedStability inp = Some ''Unstable'' \<longrightarrow>
      adjustments r =
        [''Increase heat: try higher amperage or slower travel'',
         ''Widen puddle: slow down slightly or increase amperage'',
         ''Improve edge tie-in: direct more heat to edges, adjust angle'',
         ''E6010 requires DC+, switch to E6011 for AC''])"
proof -
  from assms obtain r0 where r0: "amperage_step inp initial = Inr r0" and
    r: "r = observation_step inp (electrode_step inp (position_step inp (rodAngle_step inp r0)))"
    by (rule getRecommendations_Inr)
  have e: "adjustments (position_step inp (rodAngle_step inp r0)) = []"
    using amperage_step_fields(5)[OF r0]
    by (simp add: position_step_fields rodAngle_step_fields initial_fields)
  have general: "adjustments r =
     (if electrode inp = ''E7018'' then [''Keep arc in puddle, don't let slag get ahead''] else []) @
     (if default ''Moderate'' (observedPuddle inp) = ''Stiff''
        then [''Increase heat: try higher amperage or slower travel'']
      else if default ''Moderate'' (observedPuddle inp) = ''VeryFluid''
        then [''Reduce heat: try lower amperage or faster travel'']
      else []) @
     (if default ''Moderate'' (observedSpread inp) = ''Narrow''
        then [''Widen puddle: slow down slightly or increase amperage'']
      else if default ''Moderate'' (observedSpread inp) = ''Wide''
        then [''Narrow puddle: speed up slightly or decrease amperage'']
      else []) @
     (if default ''Adequate'' (observedTieIn inp) = ''Poor''
        then [''Improve edge tie-in: direct more heat to edges, adjust angle'']
      else []) @
     (if default ''Stable'' (observedStability inp) = ''Unstable''
        then [if electrode inp = ''E6010'' \<and> machineType inp = ''AC''
              then ''E6010 requires DC+, switch to E6011 for AC''
              else ''Maintain consistent arc length, check machine settings'']
      else [])"
    unfolding r observation_step_adjustments electrode_step_adjustments e by simp
  show ?thesis
  proof (rule conjI[OF general], rule impI)
    assume "electrode inp = ''E6010'' \<and> machineType inp = ''AC'' \<and>
        observedPuddle inp = Some ''Stiff'' \<and> observedSpread inp = Some ''Narrow'' \<and>
        observedTieIn inp = Some ''Poor'' \<and> observedStability inp = Some ''Unstable''"
    then show "adjustments r =
        [''Increase heat: try higher amperage or slower travel'',
         ''Widen puddle: slow down slightly or increase amperage'',
         ''Improve edge tie-in: direct more heat to edges, adjust angle'',
         ''E6010 requires DC+, switch to E6011 for AC'']"
      by (simp add: general default_def)
  qed
qed

theorem observation_order_witness:
  "electrode (params\<lparr>machineType := ''AC'', observedPuddle := Some ''Stiff'',
        observedSpread := Some ''Narrow'', observedTieIn := Some ''Poor'',
        observedStability := Some ''Unstable''\<rparr>) = ''E6010'' \<and>
   machineType (params\<lparr>machineType := ''AC'', observedPuddle := Some ''Stiff'',
        observedSpread := Some ''Narrow'', observedTieIn := Some ''Poor'',
        observedStability := Some ''Unstable''\<rparr>) = ''AC'' \<and>
   getRecommendations
     (params\<lparr>machineType := ''AC'', observedPuddle := Some ''Stiff'',
        observedSpread := Some ''Narrow'', observedTieIn := Some ''Poor'',
        observedStability := Some ''Unstable''\<rparr>)
   = Inr \<lparr>amperage = ''75-130A'', arcGap = ''Medium'', rodAngle = ''Perpendicular'',
        travelSpeed = [], motionPattern = [''Circular'', ''Zigzag'', ''Whip/Step''],
        adjustments =
          [''Increase heat: try higher amperage or slower travel'',
           ''Widen puddle: slow down slightly or increase amperage'',
           ''Improve edge tie-in: direct more heat to edges, adjust angle'',
           ''E6010 requires DC+, switch to E6011 for AC'']\<rparr> \<and>
   adjustments \<lparr>amperage = ''75-130A'', arcGap = ''Medium'', rodAngle = ''Perpendicular'',
        travelSpeed = [], motionPattern = [''Circular'', ''Zigzag'', ''Whip/Step''],
        adjustments =
          [''Increase heat: try higher amperage or slower travel'',
           ''Widen puddle: slow down slightly or increase amperage'',
           ''Improve edge tie-in: direct more heat to edges, adjust angle'',
           ''E6010 requires DC+, switch to E6011 for AC'']\<rparr>
   = [''Increase heat: try higher amperage or slower travel'',
      ''Widen puddle: slow down slightly or increase amperage'',
      ''Improve edge tie-in: direct more heat to edges, adjust angle'',
      ''E6010 requires DC+, switch to E6011 for AC''] \<and>
   getRecommendations
     (params\<lparr>electrode := ''E7018'', observedPuddle := Some ''VeryFluid'',
        observedSpread := Some ''Wide'', observedStability := Some ''Unstable''\<rparr>)
   = Inr \<lparr>amperage = ''100-150A'', arcGap = ''Short'', rodAngle = ''Perpendicular'',
        travelSpeed = [], motionPattern = [''Straight'', ''Side-to-side''],
        adjustments =
          [''Keep arc in puddle, don't let slag get ahead'',
           ''Reduce heat: try lower amperage or faster travel'',
           ''Narrow puddle: speed up slightly or decrease amperage'',
           ''Maintain consistent arc length, check machine settings'']\<rparr> \<and>
   adjustments \<lparr>amperage = ''100-150A'', arcGap = ''Short'', rodAngle = ''Perpendicular'',
        travelSpeed = [], motionPattern = [''Straight'', ''Side-to-side''],
        adjustments =
          [''Keep arc in puddle, don't let slag get ahead'',
           ''Reduce heat: try lower amperage or faster travel'',
           ''Narrow puddle: speed up slightly or decrease amperage'',
           ''Maintain consistent arc length, check machine settings'']\<rparr>
   = [''Keep arc in puddle, don't let slag get ahead'',
      ''Reduce heat: try lower amperage or faster travel'',
      ''Narrow puddle: speed up slightly or decrease amperage'',
      ''Maintain consistent arc length, check machine settings'']"
proof -
  have h1: "getRecommendations
     (params\<lparr>machineType := ''AC'', observedPuddle := Some ''Stiff'',
        observedSpread := Some ''Narrow'', observedTieIn := Some ''Poor'',
        observedStability := Some ''Unstable''\<rparr>)
   = Inr \<lparr>amperage = ''75-130A'', arcGap = ''Medium'', rodAngle = ''Perpendicular'',
        travelSpeed = [], motionPattern = [''Circular'', ''Zigzag'', ''Whip/Step''],
        adjustments =
          [''Increase heat: try higher amperage or slower travel'',
           ''Widen puddle: slow down slightly or increase amperage'',
           ''Improve edge tie-in: direct more heat to edges, adjust angle'',
           ''E6010 requires DC+, switch to E6011 for AC'']\<rparr>"
    by code_simp
  have h2: "getRecommendations
     (params\<lparr>electrode := ''E7018'', observedPuddle := Some ''VeryFluid'',
        observedSpread := Some ''Wide'', observedStability := Some ''Unstable''\<rparr>)
   = Inr \<lparr>amperage = ''100-150A'', arcGap = ''Short'', rodAngle = ''Perpendicular'',
        travelSpeed = [], motionPattern = [''Straight'', ''Side-to-side''],
        adjustments =
          [''Keep arc in puddle, don't let slag get ahead'',
           ''Reduce heat: try lower amperage or faster travel'',
           ''Narrow puddle: speed up slightly or decrease amperage'',
           ''Maintain consistent arc length, check machine settings'']\<rparr>"
    by code_simp
  show ?thesis
    using h1 h2 observation_order[OF h1] observation_order[OF h2]
    by (simp add: params_def default_def)
qed

text \<open>
  C9, at a failing input. The size key "constructor" is not a size of the table, yet the
  lookup finds the function inherited from \<open>Object.prototype\<close>; the guard of line 400
  then reads a property of \<open>undefined\<close> and the engine throws a \<open>TypeError\<close>.
\<close>

theorem inherited_size_key_throws:
  "getRecommendations (params\<lparr>electrodeSize := ''constructor''\<rparr>) = Inl TypeError"
  by code_simp

text \<open>
  The rest of C9 holds: the unknown electrode "E9999" leaves the amperage unset and the
  engine returns; it returns for every size and electrode key that \<open>Object.prototype\<close>
  does not define (\<open>getRecommendations_returns\<close> above).
\<close>

lemma unknown_electrode_amperage_unset:
  "getRecommendations (params\<lparr>electrode := ''E9999''\<rparr>)
   = Inr \<lparr>amperage = [], arcGap = [], rodAngle = ''Perpendicular'', travelSpeed = [],
        motionPattern = [], adjustments = []\<rparr>"
  by code_simp

text \<open>
  C10. For electrode E7024, in every position: the rod-angle and position blocks leave the
  motion pattern empty, so the append of the E7024 branch meets the empty list, and the
  engine returns the motion pattern ["Straight"] exactly. (The engine gets this far
  whenever the amperage step did not throw.)
\<close>

theorem E7024_motion:
  assumes "electrode inp = ''E7024''" and "amperage_step inp initial = Inr r0"
  shows "motionPattern (position_step inp (rodAngle_step inp r0)) = [] \<and>
         (\<exists>r. getRecommendations inp = Inr r \<and> motionPattern r = [''Straight''])"
proof -
  have seed: "motionPattern (position_step inp (rodAngle_step inp r0)) = []"
    using assms(1) amperage_step_fields(4)[OF assms(2)]
    by (simp add: position_step_def Let_def rodAngle_step_fields initial_fields)
  have "motionPattern (electrode_step inp (position_step inp (rodAngle_step inp r0)))
      = [''Straight'']"
    using assms(1) seed by (simp add: electrode_step_def)
  then show ?thesis
    using seed assms(2) by (simp add: getRecommendations_def observation_step_fields)
qed

theorem E7024_motion_witness:
  "electrode (params\<lparr>electrode := ''E7024'', position := ''Vertical Up''\<rparr>) = ''E7024'' \<and>
   amperage_step (params\<lparr>electrode := ''E7024'', position := ''Vertical Up''\<rparr>) initial
   = Inr \<lparr>amperage = ''140-185A'', arcGap = [], rodAngle = [], travelSpeed = [],
        motionPattern = [], adjustments = []\<rparr> \<and>
   motionPattern
     (position_step (params\<lparr>electrode := ''E7024'', position := ''Vertical Up''\<rparr>)
       (rodAngle_step (params\<lparr>electrode := ''E7024'', position := ''Vertical Up''\<rparr>)
         \<lparr>amperage = ''140-185A'', arcGap = [], rodAngle = [], travelSpeed = [],
          motionPattern = [], adjustments = []\<rparr>)) = [] \<and>
   (\<exists>r. getRecommendations (params\<lparr>electrode := ''E7024'', position := ''Vertical Up''\<rparr>)
        = Inr r \<and> motionPattern r = [''Straight''])"
proof -
  have h: "amperage_step (params\<lparr>electrode := ''E7024'', position := ''Vertical Up''\<rparr>) initial
    = Inr \<lparr>amperage = ''140-185A'', arcGap = [], rodAngle = [], travelSpeed = [],
        motionPattern = [], adjustments = []\<rparr>"
    by code_simp
  show ?thesis
    using h E7024_motion[OF _ h] by simp
qed

end
